theory Spec2Isabelle
  imports Main "HOL-Library.AList"
begin

section \<open>Go values used by messages.go\<close>

text \<open>
  A Go slice of strings is either \<open>nil\<close> or a sequence of entries; \<open>nil\<close> and the
  empty non-nil slice are different values and \<open>validateStringList\<close> tells them apart.
  \<open>None\<close> is the nil slice.
\<close>

type_synonym slice = "string list option"

text \<open>\<open>append(s, x)\<close>: appending to the nil slice allocates a slice of one entry.\<close>

definition append_slice :: "slice \<Rightarrow> string \<Rightarrow> slice" where
  "append_slice s x = (case s of None \<Rightarrow> Some [x] | Some xs \<Rightarrow> Some (xs @ [x]))"

text \<open>\<open>len(s)\<close>: the nil slice has length 0.\<close>

definition len :: "slice \<Rightarrow> nat" where
  "len s = (case s of None \<Rightarrow> 0 | Some xs \<Rightarrow> length xs)"

text \<open>The entries a \<open>for _, x := range s\<close> statement visits: none for the nil slice.\<close>

definition range_slice :: "slice \<Rightarrow> string list" where
  "range_slice s = (case s of None \<Rightarrow> [] | Some xs \<Rightarrow> xs)"

text \<open>
  A Go \<open>map[string]string\<close> is either \<open>nil\<close> (\<open>None\<close>) or a table of entries with
  distinct keys, kept as an association list; \<open>m[k] = v\<close> is \<open>AList.update k v\<close> and a
  lookup is \<open>map_of\<close>. The order in which \<open>range\<close> visits a map is not fixed by Go: it
  is a parameter of \<open>Send\<close> below.
\<close>

type_synonym gomap = "(string \<times> string) list option"

definition make_map :: gomap where
  "make_map = Some []"

text \<open>
  \<open>m[k] = v\<close>. Both callers initialise a nil map before they store into it, so the
  store into \<open>nil\<close> (a panic in Go) is never reached; the model leaves \<open>nil\<close> as it is.
\<close>

definition map_store :: "gomap \<Rightarrow> string \<Rightarrow> string \<Rightarrow> gomap" where
  "map_store mp k v = map_option (AList.update k v) mp"

text \<open>
  Go's \<open>error\<close> interface as \<open>Send\<close> sees it: the value built by \<open>errors.New\<close>, or an
  error handed back by the transport library (of a type \<open>'e\<close> that is the library's own).
\<close>

datatype 'e error = errors_New string | library_error 'e

section \<open>The Message structure and its mutators\<close>

text \<open>\<open>deliveryTime\<close> is a \<open>*time.Time\<close>: \<open>None\<close> is the nil pointer, \<open>'t\<close> stands for \<open>time.Time\<close>.\<close>

record 't Message =
  "from" :: string
  to :: slice
  cc :: slice
  bcc :: slice
  subject :: string
  "text" :: string
  html :: string
  tags :: slice
  campaigns :: slice
  dkim :: bool
  deliveryTime :: "'t option"
  attachments :: slice
  inlines :: slice
  testMode :: bool
  tracking :: bool
  trackingClicks :: bool
  trackingOpens :: bool
  headers :: gomap
  variables :: gomap
  dkimSet :: bool
  trackingSet :: bool
  trackingClicksSet :: bool
  trackingOpensSet :: bool

record sendMessageResponse =
  Message :: string
  Id :: string

text \<open>
  \<open>NewMessage\<close>: the composite literal sets four fields and leaves every other field at
  its zero value. The variadic parameter \<open>to\<close> arrives as a slice (nil when the caller
  passes no recipient).
\<close>

definition NewMessage :: "string \<Rightarrow> string \<Rightarrow> string \<Rightarrow> slice \<Rightarrow> 't Message" where
  "NewMessage from_arg subject_arg text_arg to_arg =
     \<lparr> from = from_arg, to = to_arg, cc = None, bcc = None, subject = subject_arg,
       text = text_arg, html = [], tags = None, campaigns = None, dkim = False,
       deliveryTime = None, attachments = None, inlines = None, testMode = False,
       tracking = False, trackingClicks = False, trackingOpens = False,
       headers = None, variables = None, dkimSet = False, trackingSet = False,
       trackingClicksSet = False, trackingOpensSet = False \<rparr>"

text \<open>
  Every mutator has a pointer receiver; the model takes the Message and returns it
  updated.
\<close>

definition AddAttachment :: "'t Message \<Rightarrow> string \<Rightarrow> 't Message" where
  "AddAttachment m attachment = m\<lparr>attachments := append_slice (attachments m) attachment\<rparr>"

definition AddInline :: "'t Message \<Rightarrow> string \<Rightarrow> 't Message" where
  "AddInline m inline = m\<lparr>inlines := append_slice (inlines m) inline\<rparr>"

definition AddRecipient :: "'t Message \<Rightarrow> string \<Rightarrow> 't Message" where
  "AddRecipient m recipient = m\<lparr>to := append_slice (to m) recipient\<rparr>"

definition AddCC :: "'t Message \<Rightarrow> string \<Rightarrow> 't Message" where
  "AddCC m recipient = m\<lparr>cc := append_slice (cc m) recipient\<rparr>"

definition AddBCC :: "'t Message \<Rightarrow> string \<Rightarrow> 't Message" where
  "AddBCC m recipient = m\<lparr>bcc := append_slice (bcc m) recipient\<rparr>"

definition SetHtml :: "'t Message \<Rightarrow> string \<Rightarrow> 't Message" where
  "SetHtml m h = m\<lparr>html := h\<rparr>"

definition AddTag :: "'t Message \<Rightarrow> string \<Rightarrow> 't Message" where
  "AddTag m tag = m\<lparr>tags := append_slice (tags m) tag\<rparr>"

definition AddCampaign :: "'t Message \<Rightarrow> string \<Rightarrow> 't Message" where
  "AddCampaign m campaign = m\<lparr>campaigns := append_slice (campaigns m) campaign\<rparr>"

definition SetDKIM :: "'t Message \<Rightarrow> bool \<Rightarrow> 't Message" where
  "SetDKIM m b = m\<lparr>dkim := b, dkimSet := True\<rparr>"

definition EnableTestMode :: "'t Message \<Rightarrow> 't Message" where
  "EnableTestMode m = m\<lparr>testMode := True\<rparr>"

definition SetDeliveryTime :: "'t Message \<Rightarrow> 't \<Rightarrow> 't Message" where
  "SetDeliveryTime m dt = m\<lparr>deliveryTime := Some dt\<rparr>"

definition SetTracking :: "'t Message \<Rightarrow> bool \<Rightarrow> 't Message" where
  "SetTracking m b = m\<lparr>tracking := b, trackingSet := True\<rparr>"

definition SetTrackingClicks :: "'t Message \<Rightarrow> bool \<Rightarrow> 't Message" where
  "SetTrackingClicks m b = m\<lparr>trackingClicks := b, trackingClicksSet := True\<rparr>"

definition SetTrackingOpens :: "'t Message \<Rightarrow> bool \<Rightarrow> 't Message" where
  "SetTrackingOpens m b = m\<lparr>trackingOpens := b, trackingOpensSet := True\<rparr>"

definition AddHeader :: "'t Message \<Rightarrow> string \<Rightarrow> string \<Rightarrow> 't Message" where
  "AddHeader m header v =
     (let m1 = (if headers m = None then m\<lparr>headers := make_map\<rparr> else m)
      in m1\<lparr>headers := map_store (headers m1) header v\<rparr>)"

text \<open>
  \<open>AddVariable\<close>. \<open>json.Marshal\<close> belongs to Go's standard library and is a parameter:
  it returns the bytes and an error (\<open>None\<close> is \<open>nil\<close>). The value has any type \<open>'v\<close>
  (\<open>interface{}\<close>). The result is the returned error and the Message after the call.
\<close>

definition AddVariable ::
    "('v \<Rightarrow> string \<times> 'e option) \<Rightarrow> 't Message \<Rightarrow> string \<Rightarrow> 'v \<Rightarrow> 'e option \<times> 't Message" where
  "AddVariable json_Marshal m variable v =
     (case json_Marshal v of (j, err) \<Rightarrow>
        if err \<noteq> None then (err, m)
        else
          let m1 = (if variables m = None then m\<lparr>variables := make_map\<rparr> else m)
          in (None, m1\<lparr>variables := map_store (variables m1) variable j\<rparr>))"

section \<open>Validation\<close>

text \<open>
  The loop of \<open>validateStringList\<close> over a non-nil slice, with the local \<open>hasOne\<close> as
  accumulator: an empty entry returns false at once, any other entry sets \<open>hasOne\<close>.
\<close>

fun validateStringList_loop :: "string list \<Rightarrow> bool \<Rightarrow> bool" where
  "validateStringList_loop [] hasOne = hasOne"
| "validateStringList_loop (a # rest) hasOne =
     (if a = [] then False else validateStringList_loop rest (hasOne \<or> True))"

definition validateStringList :: "slice \<Rightarrow> bool \<Rightarrow> bool" where
  "validateStringList list requireOne =
     (case list of None \<Rightarrow> \<not> requireOne | Some xs \<Rightarrow> validateStringList_loop xs False)"

text \<open>\<open>validateMessage\<close> has a pointer receiver: \<open>None\<close> is the nil pointer.\<close>

definition validateMessage :: "'t Message option \<Rightarrow> bool" where
  "validateMessage p =
     (case p of
        None \<Rightarrow> False
      | Some m \<Rightarrow>
          if from m = [] then False
          else if \<not> validateStringList (to m) True then False
          else if \<not> validateStringList (cc m) False then False
          else if \<not> validateStringList (bcc m) False then False
          else if \<not> validateStringList (tags m) False then False
          else if \<not> validateStringList (campaigns m) False \<or> len (campaigns m) > 3 then False
          else if text m = [] then False
          else True)"

text \<open>
  The validation rule in the words of the specification: a list is accepted when it is
  absent and absence is allowed, or present with at least one entry and no empty entry.
\<close>

definition spec_list_valid :: "slice \<Rightarrow> bool \<Rightarrow> bool" where
  "spec_list_valid list absence_allowed =
     (case list of
        None \<Rightarrow> absence_allowed
      | Some xs \<Rightarrow> 1 \<le> length xs \<and> [] \<notin> set xs)"

definition spec_message_valid :: "'t Message \<Rightarrow> bool" where
  "spec_message_valid m =
     (from m \<noteq> []
      \<and> spec_list_valid (to m) False
      \<and> spec_list_valid (cc m) True
      \<and> spec_list_valid (bcc m) True
      \<and> spec_list_valid (tags m) True
      \<and> spec_list_valid (campaigns m) True \<and> len (campaigns m) \<le> 3
      \<and> text m \<noteq> [])"

section \<open>Send\<close>

text \<open>
  The simplehttp library is not part of this repository. Its request and its form-data
  payload are modelled as records of what the calls of \<open>Send\<close> hand to them:
  \<open>AddValue\<close> and \<open>AddFile\<close> append one key/value pair each, in call order.
\<close>

record HTTPRequest =
  URL :: string
  BasicAuthUser :: string
  BasicAuthPassword :: string

definition NewHTTPRequest :: "string \<Rightarrow> HTTPRequest" where
  "NewHTTPRequest url = \<lparr> URL = url, BasicAuthUser = [], BasicAuthPassword = [] \<rparr>"

definition SetBasicAuth :: "HTTPRequest \<Rightarrow> string \<Rightarrow> string \<Rightarrow> HTTPRequest" where
  "SetBasicAuth r user password = r\<lparr>BasicAuthUser := user, BasicAuthPassword := password\<rparr>"

record FormDataPayload =
  Values :: "(string \<times> string) list"
  Files :: "(string \<times> string) list"

definition NewFormDataPayload :: FormDataPayload where
  "NewFormDataPayload = \<lparr> Values = [], Files = [] \<rparr>"

definition AddValue :: "FormDataPayload \<Rightarrow> string \<Rightarrow> string \<Rightarrow> FormDataPayload" where
  "AddValue p k v = p\<lparr>Values := Values p @ [(k, v)]\<rparr>"

definition AddFile :: "FormDataPayload \<Rightarrow> string \<Rightarrow> string \<Rightarrow> FormDataPayload" where
  "AddFile p k file = p\<lparr>Files := Files p @ [(k, file)]\<rparr>"

text \<open>
  What \<open>Send\<close> uses and this file does not define, as parameters: the receiver's type
  \<open>'mg\<close> with \<open>generateApiUrl\<close>, \<open>ApiKey\<close> and the two constants; \<open>time.Time.Format\<close>;
  the order in which \<open>range\<close> visits the entries of a map (Go does not fix it); and the
  transport, \<open>PostResponseFromJSON\<close>, which takes the request, the payload and the state
  \<open>'w\<close> of the world outside the program and returns its error (\<open>None\<close> is \<open>nil\<close>), the
  contents it has left in \<open>response\<close>, and the new state of the world.
\<close>

record ('mg, 't, 'e, 'w) env =
  generateApiUrl :: "'mg \<Rightarrow> string \<Rightarrow> string"
  messagesEndpoint :: string
  basicAuthUser :: string
  ApiKey :: "'mg \<Rightarrow> string"
  Format :: "'t \<Rightarrow> string \<Rightarrow> string"
  range_map :: "(string \<times> string) list \<Rightarrow> (string \<times> string) list"
  PostResponseFromJSON ::
    "HTTPRequest \<Rightarrow> FormDataPayload \<Rightarrow> 'w \<Rightarrow> ('e option \<times> sendMessageResponse) \<times> 'w"

definition yesNo :: "bool \<Rightarrow> string" where
  "yesNo b = (if b then ''yes'' else ''no'')"

text \<open>
  The statements of \<open>Send\<close> between the creation of the payload and the transport call
  run on two objects: the Message behind the pointer \<open>message\<close> and the payload. Each
  statement is a function from this pair to this pair.
\<close>

record 't store =
  message :: "'t Message"
  payload :: FormDataPayload

text \<open>\<open>payload.AddValue(k, e)\<close> and \<open>payload.AddFile(k, e)\<close>, with \<open>e\<close> read from the Message.\<close>

definition AddValue_stmt :: "string \<Rightarrow> ('t Message \<Rightarrow> string) \<Rightarrow> 't store \<Rightarrow> 't store" where
  "AddValue_stmt k e s = s\<lparr>payload := AddValue (payload s) k (e (message s))\<rparr>"

definition AddFile_stmt :: "string \<Rightarrow> ('t Message \<Rightarrow> string) \<Rightarrow> 't store \<Rightarrow> 't store" where
  "AddFile_stmt k e s = s\<lparr>payload := AddFile (payload s) k (e (message s))\<rparr>"

text \<open>\<open>for _, x := range e { body }\<close> over a slice: the slice is read once, before the loop.\<close>

definition for_range ::
    "('t Message \<Rightarrow> slice) \<Rightarrow> (string \<Rightarrow> 't store \<Rightarrow> 't store) \<Rightarrow> 't store \<Rightarrow> 't store" where
  "for_range e body s = fold body (range_slice (e (message s))) s"

text \<open>
  \<open>for k, v := range e { body }\<close> over a map, visited in the order \<open>ord\<close>; a nil map has
  no entries.
\<close>

definition for_range_map ::
    "((string \<times> string) list \<Rightarrow> (string \<times> string) list) \<Rightarrow> ('t Message \<Rightarrow> gomap) \<Rightarrow>
     (string \<Rightarrow> string \<Rightarrow> 't store \<Rightarrow> 't store) \<Rightarrow> 't store \<Rightarrow> 't store" where
  "for_range_map ord e body s =
     (case e (message s) of
        None \<Rightarrow> s
      | Some entries \<Rightarrow> fold (\<lambda>(k, v). body k v) (ord entries) s)"

text \<open>\<open>if c { body }\<close>, and \<open>if e != nil { body }\<close> for a pointer that the body dereferences.\<close>

definition if_stmt :: "('t Message \<Rightarrow> bool) \<Rightarrow> ('t store \<Rightarrow> 't store) \<Rightarrow> 't store \<Rightarrow> 't store" where
  "if_stmt c body s = (if c (message s) then body s else s)"

definition if_not_nil ::
    "('t Message \<Rightarrow> 'a option) \<Rightarrow> ('a \<Rightarrow> 't store \<Rightarrow> 't store) \<Rightarrow> 't store \<Rightarrow> 't store" where
  "if_not_nil e body s = (case e (message s) of None \<Rightarrow> s | Some x \<Rightarrow> body x s)"

text \<open>A sequence of statements, run in order.\<close>

definition block :: "('t store \<Rightarrow> 't store) list \<Rightarrow> 't store \<Rightarrow> 't store" where
  "block stmts s = fold (\<lambda>stmt. stmt) stmts s"

text \<open>
  The store with the values \<open>vs\<close> and the files \<open>fs\<close> appended to its payload: the form
  every statement of \<open>Send\<close> is shown to have.
\<close>

definition emit ::
    "(string \<times> string) list \<Rightarrow> (string \<times> string) list \<Rightarrow> 't store \<Rightarrow> 't store" where
  "emit vs fs s =
     s\<lparr>payload := (payload s)\<lparr>Values := Values (payload s) @ vs, Files := Files (payload s) @ fs\<rparr>\<rparr>"

text \<open>The entries of a map with \<open>pre\<close> put before each key (\<open>"h:"+header\<close>, \<open>"v:"+variable\<close>).\<close>

definition prefixed :: "string \<Rightarrow> (string \<times> string) list \<Rightarrow> (string \<times> string) list" where
  "prefixed pre al = map (\<lambda>(k, v). (pre @ k, v)) al"

text \<open>Lines 150 to 208 of messages.go, one statement per entry.\<close>

definition Send_serialize :: "('mg, 't, 'e, 'w) env \<Rightarrow> 't store \<Rightarrow> 't store" where
  "Send_serialize env =
     block
       [ AddValue_stmt ''from'' from,
         AddValue_stmt ''subject'' subject,
         AddValue_stmt ''text'' text,
         for_range to (\<lambda>x. AddValue_stmt ''to'' (\<lambda>_. x)),
         for_range cc (\<lambda>x. AddValue_stmt ''cc'' (\<lambda>_. x)),
         for_range bcc (\<lambda>x. AddValue_stmt ''bcc'' (\<lambda>_. x)),
         for_range tags (\<lambda>x. AddValue_stmt ''o:tag'' (\<lambda>_. x)),
         for_range campaigns (\<lambda>x. AddValue_stmt ''o:campaign'' (\<lambda>_. x)),
         if_stmt (\<lambda>m. html m \<noteq> []) (AddValue_stmt ''html'' html),
         if_stmt dkimSet (AddValue_stmt ''o:dkim'' (\<lambda>m. yesNo (dkim m))),
         if_not_nil deliveryTime
           (\<lambda>t. AddValue_stmt ''o:deliverytime''
                  (\<lambda>_. Format env t ''Mon, 2 Jan 2006 15:04:05 MST'')),
         if_stmt testMode (AddValue_stmt ''o:testmode'' (\<lambda>_. ''yes'')),
         if_stmt trackingSet (AddValue_stmt ''o:tracking'' (\<lambda>m. yesNo (tracking m))),
         if_stmt trackingClicksSet
           (AddValue_stmt ''o:tracking-clicks'' (\<lambda>m. yesNo (trackingClicks m))),
         if_stmt trackingOpensSet
           (AddValue_stmt ''o:tracking-opens'' (\<lambda>m. yesNo (trackingOpens m))),
         if_stmt (\<lambda>m. headers m \<noteq> None)
           (for_range_map (range_map env) headers
              (\<lambda>header v. AddValue_stmt (''h:'' @ header) (\<lambda>_. v))),
         if_stmt (\<lambda>m. variables m \<noteq> None)
           (for_range_map (range_map env) variables
              (\<lambda>variable v. AddValue_stmt (''v:'' @ variable) (\<lambda>_. v))),
         if_stmt (\<lambda>m. attachments m \<noteq> None)
           (for_range attachments (\<lambda>attachment. AddFile_stmt ''attachment'' (\<lambda>_. attachment))),
         if_stmt (\<lambda>m. inlines m \<noteq> None)
           (for_range inlines (\<lambda>inline. AddFile_stmt ''inline'' (\<lambda>_. inline))) ]"

text \<open>
  \<open>Send\<close>. The result is the triple the Go function returns (\<open>mes\<close>, \<open>id\<close>, \<open>err\<close>; the
  named results start as \<open>""\<close>, \<open>""\<close>, \<open>nil\<close>), what the pointer \<open>message\<close> points to
  after the call, and the state of the world after the call. A nil \<open>message\<close> is
  rejected by \<open>validateMessage\<close>, so the second branch never sees one.
\<close>

definition Send ::
    "('mg, 't, 'e, 'w) env \<Rightarrow> 'mg \<Rightarrow> 't Message option \<Rightarrow> 'w \<Rightarrow>
     (string \<times> string \<times> 'e error option) \<times> 't Message option \<times> 'w" where
  "Send env m message_ptr w =
     (if \<not> validateMessage message_ptr
      then (([], [], Some (errors_New ''Message not valid'')), message_ptr, w)
      else
        case message_ptr of
          None \<Rightarrow> (([], [], Some (errors_New ''Message not valid'')), message_ptr, w)
        | Some msg \<Rightarrow>
            let r = NewHTTPRequest (generateApiUrl env m (messagesEndpoint env));
                s = Send_serialize env \<lparr> message = msg, payload = NewFormDataPayload \<rparr>;
                r = SetBasicAuth r (basicAuthUser env) (ApiKey env m)
            in case PostResponseFromJSON env r (payload s) w of
                 ((err, response), w') \<Rightarrow>
                   (case err of
                      None \<Rightarrow> ((Message response, Id response, None), Some (message s), w')
                    | Some e \<Rightarrow> (([], [], Some (library_error e)), Some (message s), w')))"

text \<open>The request and the payload that \<open>Send\<close> hands to the transport for a Message.\<close>

definition Send_request :: "('mg, 't, 'e, 'w) env \<Rightarrow> 'mg \<Rightarrow> HTTPRequest" where
  "Send_request env m =
     SetBasicAuth (NewHTTPRequest (generateApiUrl env m (messagesEndpoint env)))
       (basicAuthUser env) (ApiKey env m)"

definition Send_payload :: "('mg, 't, 'e, 'w) env \<Rightarrow> 't Message \<Rightarrow> FormDataPayload" where
  "Send_payload env msg =
     payload (Send_serialize env \<lparr> message = msg, payload = NewFormDataPayload \<rparr>)"

text \<open>The values a payload carries under one wire field name, in order.\<close>

definition wire_values :: "string \<Rightarrow> FormDataPayload \<Rightarrow> string list" where
  "wire_values k p = map snd (filter (\<lambda>kv. fst kv = k) (Values p))"

section \<open>Histories of mutator calls\<close>

text \<open>
  The fields of a Message are unexported: outside the package a Message is what
  \<open>NewMessage\<close> returns, changed by calls of the mutators. A history is the list of
  those calls, oldest first.
\<close>

datatype ('t, 'v) call =
    AddAttachment_call string
  | AddInline_call string
  | AddRecipient_call string
  | AddCC_call string
  | AddBCC_call string
  | SetHtml_call string
  | AddTag_call string
  | AddCampaign_call string
  | SetDKIM_call bool
  | EnableTestMode_call
  | SetDeliveryTime_call 't
  | SetTracking_call bool
  | SetTrackingClicks_call bool
  | SetTrackingOpens_call bool
  | AddHeader_call string string
  | AddVariable_call string 'v

fun invoke :: "('v \<Rightarrow> string \<times> 'e option) \<Rightarrow> 't Message \<Rightarrow> ('t, 'v) call \<Rightarrow> 't Message" where
  "invoke js m (AddAttachment_call a) = AddAttachment m a"
| "invoke js m (AddInline_call a) = AddInline m a"
| "invoke js m (AddRecipient_call a) = AddRecipient m a"
| "invoke js m (AddCC_call a) = AddCC m a"
| "invoke js m (AddBCC_call a) = AddBCC m a"
| "invoke js m (SetHtml_call a) = SetHtml m a"
| "invoke js m (AddTag_call a) = AddTag m a"
| "invoke js m (AddCampaign_call a) = AddCampaign m a"
| "invoke js m (SetDKIM_call b) = SetDKIM m b"
| "invoke js m EnableTestMode_call = EnableTestMode m"
| "invoke js m (SetDeliveryTime_call dt) = SetDeliveryTime m dt"
| "invoke js m (SetTracking_call b) = SetTracking m b"
| "invoke js m (SetTrackingClicks_call b) = SetTrackingClicks m b"
| "invoke js m (SetTrackingOpens_call b) = SetTrackingOpens m b"
| "invoke js m (AddHeader_call h v) = AddHeader m h v"
| "invoke js m (AddVariable_call k v) = snd (AddVariable js m k v)"

definition invoke_all ::
    "('v \<Rightarrow> string \<times> 'e option) \<Rightarrow> 't Message \<Rightarrow> ('t, 'v) call list \<Rightarrow> 't Message" where
  "invoke_all js m cs = foldl (invoke js) m cs"

text \<open>
  The argument of the most recent call of \<open>SetTrackingOpens\<close> in a history; \<open>None\<close> when
  the history has no such call.
\<close>

fun latest_SetTrackingOpens :: "('t, 'v) call list \<Rightarrow> bool option" where
  "latest_SetTrackingOpens [] = None"
| "latest_SetTrackingOpens (c # cs) =
     (case latest_SetTrackingOpens cs of
        Some b \<Rightarrow> Some b
      | None \<Rightarrow> (case c of SetTrackingOpens_call b \<Rightarrow> Some b | _ \<Rightarrow> None))"

section \<open>Fixtures\<close>

text \<open>
  A stub transport that records each request and payload it is given in a log (the
  state of the world) and answers with a fixed error and response; an environment
  around it whose other parameters are stand-ins; and the minimal Message of the
  specification's round-trip scenario.
\<close>

type_synonym log = "(HTTPRequest \<times> FormDataPayload) list"

definition stub_transport ::
    "string option \<Rightarrow> sendMessageResponse \<Rightarrow> HTTPRequest \<Rightarrow> FormDataPayload \<Rightarrow> log \<Rightarrow>
     (string option \<times> sendMessageResponse) \<times> log" where
  "stub_transport err reply r p lg = ((err, reply), lg @ [(r, p)])"

definition stub_env :: "string option \<Rightarrow> sendMessageResponse \<Rightarrow> (string, nat, string, log) env" where
  "stub_env err reply =
     \<lparr> generateApiUrl = (\<lambda>domain endpoint. domain @ ''/'' @ endpoint),
       messagesEndpoint = ''messages'',
       basicAuthUser = ''user'',
       ApiKey = (\<lambda>_. ''key''),
       Format = (\<lambda>t layout. layout),
       range_map = (\<lambda>al. al),
       PostResponseFromJSON = stub_transport err reply \<rparr>"

definition queued :: sendMessageResponse where
  "queued = \<lparr> Message = ''Queued'', Id = ''abc123'' \<rparr>"

definition minimal_message :: "nat Message" where
  "minimal_message = NewMessage ''a@example.com'' ''hi'' ''hello'' (Some [''b@example.com''])"

text \<open>A marshaller that fails on \<open>None\<close> and yields the given text otherwise.\<close>

definition stub_Marshal :: "string option \<Rightarrow> string \<times> string option" where
  "stub_Marshal v = (case v of None \<Rightarrow> ([], Some ''unsupported value'') | Some j \<Rightarrow> (j, None))"

section \<open>Validation: theorems\<close>

lemma validateStringList_loop_eq:
  "validateStringList_loop xs hasOne = ([] \<notin> set xs \<and> (hasOne \<or> xs \<noteq> []))"
  by (induction xs arbitrary: hasOne) auto

lemma validateStringList_spec:
  "validateStringList list requireOne = spec_list_valid list (\<not> requireOne)"
  by (cases list)
     (auto simp: validateStringList_def spec_list_valid_def validateStringList_loop_eq
                 Suc_le_eq)

text \<open>
  C1. \<open>validateMessage\<close> accepts a Message exactly when \<open>from\<close> is non-empty, \<open>to\<close> is
  present with at least one entry and no empty entry, each of \<open>cc\<close>, \<open>bcc\<close> and \<open>tags\<close>
  is absent or present with at least one entry and no empty entry, \<open>campaigns\<close> is
  absent or such a list of at most three entries, and \<open>text\<close> is non-empty. A list that
  is present but empty is rejected whether or not absence is allowed.
\<close>

theorem validateMessage_iff_spec:
  "validateMessage (Some m) = spec_message_valid m
   \<and> validateStringList (Some []) requireOne = False"
  by (auto simp: validateMessage_def spec_message_valid_def validateStringList_spec
                 spec_list_valid_def validateStringList_def)

lemma validateMessage_minimal_message: "validateMessage (Some minimal_message)"
  by (simp add: minimal_message_def NewMessage_def validateMessage_def
        validateStringList_def len_def)

theorem validateMessage_iff_spec_witness:
  "validateMessage (Some minimal_message) = spec_message_valid minimal_message
   \<and> spec_message_valid minimal_message
   \<and> validateStringList (Some []) False = False"
  using validateMessage_iff_spec [of minimal_message False]
  by (simp add: spec_message_valid_def spec_list_valid_def minimal_message_def
        NewMessage_def len_def)

section \<open>Send: what the statements do to the store\<close>

lemma message_emit [simp]: "message (emit vs fs s) = message s"
  by (simp add: emit_def)

lemma emit_emit [simp]: "emit vs fs (emit vs' fs' s) = emit (vs' @ vs) (fs' @ fs) s"
  by (simp add: emit_def)

lemma AddValue_stmt_emit: "AddValue_stmt k e s = emit [(k, e (message s))] [] s"
  by (simp add: AddValue_stmt_def AddValue_def emit_def)

lemma AddFile_stmt_emit: "AddFile_stmt k e s = emit [] [(k, e (message s))] s"
  by (simp add: AddFile_stmt_def AddFile_def emit_def)

lemma fold_AddValue_stmt:
  "fold (\<lambda>x. AddValue_stmt k (\<lambda>_. x)) xs s = emit (map (Pair k) xs) [] s"
  by (induction xs arbitrary: s) (simp_all add: AddValue_stmt_emit emit_def)

lemma fold_AddFile_stmt:
  "fold (\<lambda>x. AddFile_stmt k (\<lambda>_. x)) xs s = emit [] (map (Pair k) xs) s"
  by (induction xs arbitrary: s) (simp_all add: AddFile_stmt_emit emit_def)

lemma for_range_AddValue_stmt:
  "for_range e (\<lambda>x. AddValue_stmt k (\<lambda>_. x)) s =
     emit (map (Pair k) (range_slice (e (message s)))) [] s"
  by (simp add: for_range_def fold_AddValue_stmt)

lemma for_range_AddFile_stmt:
  "for_range e (\<lambda>x. AddFile_stmt k (\<lambda>_. x)) s =
     emit [] (map (Pair k) (range_slice (e (message s)))) s"
  by (simp add: for_range_def fold_AddFile_stmt)

lemma fold_prefixed:
  "fold (\<lambda>(k, v). AddValue_stmt (pre @ k) (\<lambda>_. v)) al s = emit (prefixed pre al) [] s"
  by (induction al arbitrary: s) (auto simp: AddValue_stmt_emit prefixed_def emit_def)

lemma for_range_map_AddValue_stmt:
  "for_range_map ord e (\<lambda>k v. AddValue_stmt (pre @ k) (\<lambda>_. v)) s =
     emit (case e (message s) of None \<Rightarrow> [] | Some al \<Rightarrow> prefixed pre (ord al)) [] s"
  by (simp add: for_range_map_def fold_prefixed emit_def split: option.splits)

lemma if_stmt_AddValue_stmt:
  "if_stmt c (AddValue_stmt k e) s =
     emit (if c (message s) then [(k, e (message s))] else []) [] s"
  by (simp add: if_stmt_def AddValue_stmt_emit emit_def)

lemma if_stmt_for_range_map:
  "if_stmt c (for_range_map ord e (\<lambda>k v. AddValue_stmt (pre @ k) (\<lambda>_. v))) s =
     emit (if c (message s)
           then (case e (message s) of None \<Rightarrow> [] | Some al \<Rightarrow> prefixed pre (ord al))
           else []) [] s"
  by (simp add: if_stmt_def for_range_map_AddValue_stmt emit_def)

lemma if_stmt_for_range_AddFile_stmt:
  "if_stmt c (for_range e (\<lambda>x. AddFile_stmt k (\<lambda>_. x))) s =
     emit [] (if c (message s) then map (Pair k) (range_slice (e (message s))) else []) s"
  by (simp add: if_stmt_def for_range_AddFile_stmt emit_def)

lemma if_not_nil_AddValue_stmt:
  "if_not_nil e (\<lambda>x. AddValue_stmt k (\<lambda>_. f x)) s =
     emit (case e (message s) of None \<Rightarrow> [] | Some x \<Rightarrow> [(k, f x)]) [] s"
  by (simp add: if_not_nil_def AddValue_stmt_emit emit_def split: option.splits)

lemma if_not_None_case:
  "(if x \<noteq> None then (case x of None \<Rightarrow> [] | Some al \<Rightarrow> f al) else []) =
     (case x of None \<Rightarrow> [] | Some al \<Rightarrow> f al)"
  by (cases x) simp_all

lemma if_not_None_range_slice:
  "(if x \<noteq> None then map f (range_slice x) else []) = map f (range_slice x)"
  by (cases x) (simp_all add: range_slice_def)

text \<open>
  The statements of \<open>Send\<close> leave the Message as it is and append to the payload, in
  this order, what the Message holds.
\<close>

lemma Send_serialize_emit:
  "Send_serialize env s =
     emit
       ([(''from'', from (message s)), (''subject'', subject (message s)),
         (''text'', text (message s))]
        @ map (Pair ''to'') (range_slice (to (message s)))
        @ map (Pair ''cc'') (range_slice (cc (message s)))
        @ map (Pair ''bcc'') (range_slice (bcc (message s)))
        @ map (Pair ''o:tag'') (range_slice (tags (message s)))
        @ map (Pair ''o:campaign'') (range_slice (campaigns (message s)))
        @ (if html (message s) \<noteq> [] then [(''html'', html (message s))] else [])
        @ (if dkimSet (message s) then [(''o:dkim'', yesNo (dkim (message s)))] else [])
        @ (case deliveryTime (message s) of
             None \<Rightarrow> []
           | Some t \<Rightarrow> [(''o:deliverytime'', Format env t ''Mon, 2 Jan 2006 15:04:05 MST'')])
        @ (if testMode (message s) then [(''o:testmode'', ''yes'')] else [])
        @ (if trackingSet (message s) then [(''o:tracking'', yesNo (tracking (message s)))] else [])
        @ (if trackingClicksSet (message s)
           then [(''o:tracking-clicks'', yesNo (trackingClicks (message s)))] else [])
        @ (if trackingOpensSet (message s)
           then [(''o:tracking-opens'', yesNo (trackingOpens (message s)))] else [])
        @ (case headers (message s) of
             None \<Rightarrow> [] | Some al \<Rightarrow> prefixed ''h:'' (range_map env al))
        @ (case variables (message s) of
             None \<Rightarrow> [] | Some al \<Rightarrow> prefixed ''v:'' (range_map env al)))
       (map (Pair ''attachment'') (range_slice (attachments (message s)))
        @ map (Pair ''inline'') (range_slice (inlines (message s))))
       s"
  unfolding Send_serialize_def block_def
  apply (simp only: fold_simps o_apply id_apply)
  apply (simp only: AddValue_stmt_emit for_range_AddValue_stmt if_not_nil_AddValue_stmt
      if_stmt_AddValue_stmt if_stmt_for_range_map if_stmt_for_range_AddFile_stmt
      message_emit emit_emit)
  apply (simp only: if_not_None_case if_not_None_range_slice append_Nil append_Nil2
      append_Cons append_assoc)
  done

lemma message_Send_serialize: "message (Send_serialize env s) = message s"
  by (simp only: Send_serialize_emit message_emit)

lemma Values_Send_payload:
  "Values (Send_payload env m) =
       [(''from'', from m), (''subject'', subject m), (''text'', text m)]
        @ map (Pair ''to'') (range_slice (to m))
        @ map (Pair ''cc'') (range_slice (cc m))
        @ map (Pair ''bcc'') (range_slice (bcc m))
        @ map (Pair ''o:tag'') (range_slice (tags m))
        @ map (Pair ''o:campaign'') (range_slice (campaigns m))
        @ (if html m \<noteq> [] then [(''html'', html m)] else [])
        @ (if dkimSet m then [(''o:dkim'', yesNo (dkim m))] else [])
        @ (case deliveryTime m of
             None \<Rightarrow> []
           | Some t \<Rightarrow> [(''o:deliverytime'', Format env t ''Mon, 2 Jan 2006 15:04:05 MST'')])
        @ (if testMode m then [(''o:testmode'', ''yes'')] else [])
        @ (if trackingSet m then [(''o:tracking'', yesNo (tracking m))] else [])
        @ (if trackingClicksSet m
           then [(''o:tracking-clicks'', yesNo (trackingClicks m))] else [])
        @ (if trackingOpensSet m
           then [(''o:tracking-opens'', yesNo (trackingOpens m))] else [])
        @ (case headers m of
             None \<Rightarrow> [] | Some al \<Rightarrow> prefixed ''h:'' (range_map env al))
        @ (case variables m of
             None \<Rightarrow> [] | Some al \<Rightarrow> prefixed ''v:'' (range_map env al))"
  unfolding Send_payload_def Send_serialize_emit
  by (simp add: emit_def NewFormDataPayload_def)

lemma Files_Send_payload:
  "Files (Send_payload env m) =
     map (Pair ''attachment'') (range_slice (attachments m))
     @ map (Pair ''inline'') (range_slice (inlines m))"
  unfolding Send_payload_def Send_serialize_emit
  by (simp add: emit_def NewFormDataPayload_def)

lemma filter_Pair:
  "filter (\<lambda>kv. fst kv = k) (map (Pair k') xs) = (if k' = k then map (Pair k') xs else [])"
  by (induction xs) auto

lemma filter_prefixed:
  "take (length pre) k \<noteq> pre \<Longrightarrow> filter (\<lambda>kv. fst kv = k) (prefixed pre al) = []"
  by (induction al) (auto simp: prefixed_def)

section \<open>Send: the two branches\<close>

lemma Send_invalid:
  "\<not> validateMessage p \<Longrightarrow>
   Send env mg p w = (([], [], Some (errors_New ''Message not valid'')), p, w)"
  by (simp add: Send_def)

lemma Send_valid:
  "validateMessage (Some m) \<Longrightarrow>
   Send env mg (Some m) w =
     (case PostResponseFromJSON env (Send_request env mg) (Send_payload env m) w of
        ((None, response), w') \<Rightarrow> ((Message response, Id response, None), Some m, w')
      | ((Some e, response), w') \<Rightarrow> (([], [], Some (library_error e)), Some m, w'))"
  by (simp add: Send_def Let_def Send_request_def Send_payload_def message_Send_serialize
           split: prod.splits option.splits)

lemma validateMessage_None: "\<not> validateMessage None"
  by (simp add: validateMessage_def)

section \<open>Histories: the tracking-opens fields\<close>

lemma wire_values_tracking_opens:
  "wire_values ''o:tracking-opens'' (Send_payload env m) =
     (if trackingOpensSet m then [yesNo (trackingOpens m)] else [])"
  by (simp add: wire_values_def Values_Send_payload filter_Pair filter_prefixed
           split: option.splits)

lemma AddVariable_trackingOpens:
  "trackingOpensSet (snd (AddVariable js m k v)) = trackingOpensSet m"
  "trackingOpens (snd (AddVariable js m k v)) = trackingOpens m"
  by (simp_all add: AddVariable_def Let_def split: prod.splits)

lemma invoke_trackingOpensSet:
  "trackingOpensSet (invoke js m c) =
     (trackingOpensSet m \<or> latest_SetTrackingOpens [c] \<noteq> None)"
  by (cases c)
     (simp_all add: AddAttachment_def AddInline_def AddRecipient_def AddCC_def AddBCC_def
        SetHtml_def AddTag_def AddCampaign_def SetDKIM_def EnableTestMode_def
        SetDeliveryTime_def SetTracking_def SetTrackingClicks_def SetTrackingOpens_def
        AddHeader_def Let_def AddVariable_trackingOpens)

lemma invoke_trackingOpens:
  "trackingOpens (invoke js m c) =
     (case latest_SetTrackingOpens [c] of None \<Rightarrow> trackingOpens m | Some b \<Rightarrow> b)"
  by (cases c)
     (simp_all add: AddAttachment_def AddInline_def AddRecipient_def AddCC_def AddBCC_def
        SetHtml_def AddTag_def AddCampaign_def SetDKIM_def EnableTestMode_def
        SetDeliveryTime_def SetTracking_def SetTrackingClicks_def SetTrackingOpens_def
        AddHeader_def Let_def AddVariable_trackingOpens)

lemma invoke_all_trackingOpensSet:
  "trackingOpensSet (invoke_all js m cs) =
     (trackingOpensSet m \<or> latest_SetTrackingOpens cs \<noteq> None)"
  unfolding invoke_all_def
proof (induction cs arbitrary: m)
  case Nil
  show ?case by simp
next
  case (Cons c cs)
  show ?case
    using invoke_trackingOpensSet [of js m c]
    by (auto simp: Cons.IH split: option.splits)
qed

lemma invoke_all_trackingOpens:
  "trackingOpens (invoke_all js m cs) =
     (case latest_SetTrackingOpens cs of None \<Rightarrow> trackingOpens m | Some b \<Rightarrow> b)"
  unfolding invoke_all_def
proof (induction cs arbitrary: m)
  case Nil
  show ?case by simp
next
  case (Cons c cs)
  show ?case
    using invoke_trackingOpens [of js m c]
    by (auto simp: Cons.IH split: option.splits)
qed

section \<open>Send, the payload and AddVariable: theorems\<close>

text \<open>
  C2. For a Message whose \<open>from\<close> is the empty string, \<open>Send\<close> returns the error
  \<open>errors.New("Message not valid")\<close> with an empty status message and an empty message
  id, and the transport is not called: whatever the transport is, the world is in the
  state it was in before the call.
\<close>

theorem Send_empty_from:
  "from m = [] \<Longrightarrow>
   Send env mg (Some m) w = (([], [], Some (errors_New ''Message not valid'')), Some m, w)"
  by (simp add: Send_invalid validateMessage_def)

theorem Send_empty_from_witness:
  "from (minimal_message\<lparr>from := []\<rparr>) = []
   \<and> Send (stub_env None queued) ''example.com'' (Some (minimal_message\<lparr>from := []\<rparr>)) [] =
       (([], [], Some (errors_New ''Message not valid'')),
        Some (minimal_message\<lparr>from := []\<rparr>), [])"
  using Send_empty_from [of "minimal_message\<lparr>from := []\<rparr>" "stub_env None queued"
      "''example.com''" "[]"]
  by simp

text \<open>
  C3. For a Message whose \<open>campaigns\<close> has four entries, \<open>Send\<close> returns the error
  \<open>errors.New("Message not valid")\<close>, whatever the entries and the other fields are.
\<close>

theorem Send_four_campaigns:
  "len (campaigns m) = 4 \<Longrightarrow>
   fst (Send env mg (Some m) w) = ([], [], Some (errors_New ''Message not valid''))"
  by (simp add: Send_invalid validateMessage_def)

theorem Send_four_campaigns_witness:
  "len (campaigns (minimal_message\<lparr>campaigns := Some [''c1'', ''c2'', ''c3'', ''c4'']\<rparr>)) = 4
   \<and> fst (Send (stub_env None queued) ''example.com''
            (Some (minimal_message\<lparr>campaigns := Some [''c1'', ''c2'', ''c3'', ''c4'']\<rparr>)) []) =
       ([], [], Some (errors_New ''Message not valid''))"
  using Send_four_campaigns
    [of "minimal_message\<lparr>campaigns := Some [''c1'', ''c2'', ''c3'', ''c4'']\<rparr>"
       "stub_env None queued" "''example.com''" "[]"]
  by (simp add: len_def)

text \<open>
  C4. Take two valid Messages, each built by \<open>NewMessage\<close> and a history of mutator
  calls. If the most recent \<open>SetTrackingOpens\<close> call of the first passed \<open>false\<close>, its
  payload carries \<open>o:tracking-opens\<close> once, with the value \<open>no\<close>. If the history of the
  second has no \<open>SetTrackingOpens\<close> call, its payload carries no \<open>o:tracking-opens\<close>
  value. So the two payloads differ.
\<close>

theorem tracking_opens_on_wire:
  assumes "m_no = invoke_all js (NewMessage f1 s1 t1 r1) cs_no"
      and "latest_SetTrackingOpens cs_no = Some False"
      and "validateMessage (Some m_no)"
      and "m_unset = invoke_all js (NewMessage f2 s2 t2 r2) cs_unset"
      and "latest_SetTrackingOpens cs_unset = None"
      and "validateMessage (Some m_unset)"
  shows "wire_values ''o:tracking-opens'' (Send_payload env m_no) = [''no'']
       \<and> wire_values ''o:tracking-opens'' (Send_payload env m_unset) = []
       \<and> Send_payload env m_no \<noteq> Send_payload env m_unset"
proof -
  have no: "wire_values ''o:tracking-opens'' (Send_payload env m_no) = [''no'']"
    using assms(1,2)
    by (simp add: wire_values_tracking_opens invoke_all_trackingOpensSet
          invoke_all_trackingOpens yesNo_def)
  have unset: "wire_values ''o:tracking-opens'' (Send_payload env m_unset) = []"
    using assms(4,5)
    by (simp add: wire_values_tracking_opens invoke_all_trackingOpensSet NewMessage_def)
  from no unset have "Send_payload env m_no \<noteq> Send_payload env m_unset"
    by auto
  with no unset show ?thesis by simp
qed

theorem tracking_opens_on_wire_witness:
  "latest_SetTrackingOpens [SetTrackingOpens_call False :: (nat, string option) call] = Some False
   \<and> validateMessage (Some (invoke_all stub_Marshal minimal_message [SetTrackingOpens_call False]))
   \<and> latest_SetTrackingOpens ([] :: (nat, string option) call list) = None
   \<and> validateMessage (Some (invoke_all stub_Marshal minimal_message []))
   \<and> wire_values ''o:tracking-opens''
        (Send_payload (stub_env None queued)
           (invoke_all stub_Marshal minimal_message [SetTrackingOpens_call False])) = [''no'']
   \<and> wire_values ''o:tracking-opens''
        (Send_payload (stub_env None queued) (invoke_all stub_Marshal minimal_message [])) = []"
proof -
  have a: "latest_SetTrackingOpens [SetTrackingOpens_call False :: (nat, string option) call] = Some False"
    by simp
  have b: "validateMessage (Some (invoke_all stub_Marshal minimal_message [SetTrackingOpens_call False]))"
    by (simp add: invoke_all_def SetTrackingOpens_def minimal_message_def NewMessage_def
          validateMessage_def validateStringList_def len_def)
  have c: "latest_SetTrackingOpens ([] :: (nat, string option) call list) = None"
    by simp
  have d: "validateMessage (Some (invoke_all stub_Marshal minimal_message []))"
    by (simp add: invoke_all_def minimal_message_def NewMessage_def
          validateMessage_def validateStringList_def len_def)
  show ?thesis
    using a b c d
      tracking_opens_on_wire
        [of "invoke_all stub_Marshal minimal_message [SetTrackingOpens_call False]"
            stub_Marshal "''a@example.com''" "''hi''" "''hello''" "Some [''b@example.com'']"
            "[SetTrackingOpens_call False]"
            "invoke_all stub_Marshal minimal_message []"
            "''a@example.com''" "''hi''" "''hello''" "Some [''b@example.com'']" "[]"
            "stub_env None queued"]
    by (simp add: minimal_message_def)
qed

text \<open>
  C5. For a valid Message the payload carries \<open>o:testmode\<close> once, with the value \<open>yes\<close>,
  when \<open>testMode\<close> is true, and carries no \<open>o:testmode\<close> value when it is false; the
  value \<open>no\<close> is never sent under \<open>o:testmode\<close>.
\<close>

theorem testmode_on_wire:
  assumes "validateMessage (Some m)"
  shows "wire_values ''o:testmode'' (Send_payload env m) = (if testMode m then [''yes''] else [])
       \<and> ''no'' \<notin> set (wire_values ''o:testmode'' (Send_payload env m))"
proof -
  have "wire_values ''o:testmode'' (Send_payload env m) = (if testMode m then [''yes''] else [])"
    by (simp add: wire_values_def Values_Send_payload filter_Pair filter_prefixed
             split: option.splits)
  then show ?thesis by simp
qed

theorem testmode_on_wire_witness:
  "validateMessage (Some (EnableTestMode minimal_message))
   \<and> wire_values ''o:testmode'' (Send_payload (stub_env None queued) (EnableTestMode minimal_message))
       = [''yes'']
   \<and> validateMessage (Some minimal_message)
   \<and> wire_values ''o:testmode'' (Send_payload (stub_env None queued) minimal_message) = []"
proof -
  have a: "validateMessage (Some (EnableTestMode minimal_message))"
    by (simp add: EnableTestMode_def minimal_message_def NewMessage_def validateMessage_def
          validateStringList_def len_def)
  have b: "testMode (EnableTestMode minimal_message)" "\<not> testMode minimal_message"
    by (simp_all add: EnableTestMode_def minimal_message_def NewMessage_def)
  show ?thesis
    using a b validateMessage_minimal_message
      testmode_on_wire [OF a, of "stub_env None queued"]
      testmode_on_wire [OF validateMessage_minimal_message, of "stub_env None queued"]
    by simp
qed

text \<open>
  C6. \<open>AddVariable\<close> marshals the value during the call. When \<open>json.Marshal\<close> returns
  a non-nil error, \<open>AddVariable\<close> returns that error. When it returns the text \<open>j\<close> and
  no error, \<open>AddVariable\<close> returns nil and the variables map is non-nil afterwards and
  holds the text \<open>j\<close>, a string, under the variable's name.
\<close>

theorem AddVariable_marshals_at_call:
  assumes "json_Marshal v = (j, err)"
  shows "(err \<noteq> None \<longrightarrow> fst (AddVariable json_Marshal m variable v) = err)
       \<and> (err = None \<longrightarrow>
            fst (AddVariable json_Marshal m variable v) = None
            \<and> (\<exists>al. variables (snd (AddVariable json_Marshal m variable v)) = Some al
                     \<and> map_of al variable = Some j))"
  using assms
  by (auto simp: AddVariable_def Let_def make_map_def map_store_def update_conv')

theorem AddVariable_marshals_at_call_witness:
  "stub_Marshal None = ([], Some ''unsupported value'')
   \<and> fst (AddVariable stub_Marshal minimal_message ''n'' None) = Some ''unsupported value''
   \<and> stub_Marshal (Some ''42'') = (''42'', None)
   \<and> fst (AddVariable stub_Marshal minimal_message ''n'' (Some ''42'')) = None
   \<and> (\<exists>al. variables (snd (AddVariable stub_Marshal minimal_message ''n'' (Some ''42''))) = Some al
           \<and> map_of al ''n'' = Some ''42'')"
proof -
  have a: "stub_Marshal None = ([], Some ''unsupported value'')"
    by (simp add: stub_Marshal_def)
  have b: "stub_Marshal (Some ''42'') = (''42'', None)"
    by (simp add: stub_Marshal_def)
  show ?thesis
    using a b
      AddVariable_marshals_at_call
        [of stub_Marshal None "[]" "Some ''unsupported value''" minimal_message "''n''"]
      AddVariable_marshals_at_call
        [of stub_Marshal "Some ''42''" "''42''" None minimal_message "''n''"]
    by simp
qed

text \<open>
  C7. The Message built by \<open>NewMessage\<close> from \<open>a@example.com\<close>, \<open>hi\<close>, \<open>hello\<close> and the
  one recipient \<open>b@example.com\<close> is accepted by \<open>validateMessage\<close>; its payload holds
  exactly the four values \<open>from\<close>, \<open>subject\<close>, \<open>text\<close> and \<open>to\<close>, no file, and so no
  value under \<open>o:tracking\<close>, \<open>o:tracking-clicks\<close>, \<open>o:tracking-opens\<close>, \<open>o:dkim\<close> or
  \<open>o:testmode\<close>.
\<close>

theorem minimal_message_round_trip:
  "validateMessage (Some minimal_message)
   \<and> Values (Send_payload env minimal_message) =
       [(''from'', ''a@example.com''), (''subject'', ''hi''), (''text'', ''hello''),
        (''to'', ''b@example.com'')]
   \<and> Files (Send_payload env minimal_message) = []
   \<and> wire_values ''o:tracking'' (Send_payload env minimal_message) = []
   \<and> wire_values ''o:tracking-clicks'' (Send_payload env minimal_message) = []
   \<and> wire_values ''o:tracking-opens'' (Send_payload env minimal_message) = []
   \<and> wire_values ''o:dkim'' (Send_payload env minimal_message) = []
   \<and> wire_values ''o:testmode'' (Send_payload env minimal_message) = []"
  by (simp add: wire_values_def Values_Send_payload Files_Send_payload minimal_message_def
        NewMessage_def validateMessage_def validateStringList_def len_def range_slice_def)

theorem minimal_message_round_trip_witness:
  "validateMessage (Some minimal_message)
   \<and> Values (Send_payload (stub_env None queued) minimal_message) =
       [(''from'', ''a@example.com''), (''subject'', ''hi''), (''text'', ''hello''),
        (''to'', ''b@example.com'')]
   \<and> Files (Send_payload (stub_env None queued) minimal_message) = []"
  using minimal_message_round_trip [of "stub_env None queued"]
  by simp

text \<open>
  C8. For a valid Message, \<open>Send\<close> hands its request and payload to the transport.
  When the transport returns an error, \<open>Send\<close> returns that error with an empty status
  message and an empty message id; when it returns no error, \<open>Send\<close> returns the
  \<open>Message\<close> and \<open>Id\<close> strings of the decoded response with a nil error.
\<close>

theorem Send_interprets_exchange:
  "validateMessage (Some m) \<Longrightarrow>
   fst (Send env mg (Some m) w) =
     (case fst (PostResponseFromJSON env (Send_request env mg) (Send_payload env m) w) of
        (Some e, response) \<Rightarrow> ([], [], Some (library_error e))
      | (None, response) \<Rightarrow> (Message response, Id response, None))"
  by (simp add: Send_valid split: prod.splits option.splits)

theorem Send_interprets_exchange_witness:
  "validateMessage (Some minimal_message)
   \<and> fst (Send (stub_env None queued) ''example.com'' (Some minimal_message) []) =
       (''Queued'', ''abc123'', None)
   \<and> fst (Send (stub_env (Some ''connection refused'') queued) ''example.com''
            (Some minimal_message) []) =
       ([], [], Some (library_error ''connection refused''))"
  using validateMessage_minimal_message
    Send_interprets_exchange [OF validateMessage_minimal_message,
      of "stub_env None queued" "''example.com''" "[]"]
    Send_interprets_exchange [OF validateMessage_minimal_message,
      of "stub_env (Some ''connection refused'') queued" "''example.com''" "[]"]
  by (simp add: stub_env_def stub_transport_def queued_def)

text \<open>
  C9. \<open>Send\<close> leaves the Message behind its argument as it was, field for field,
  whether validation fails, the transport fails or the transport succeeds.
\<close>

theorem Send_leaves_message:
  "fst (snd (Send env mg p w)) = p"
proof (cases "validateMessage p")
  case False
  then show ?thesis by (simp add: Send_invalid)
next
  case True
  then obtain m where p: "p = Some m"
    by (cases p) (simp_all add: validateMessage_None)
  with True show ?thesis
    by (simp add: Send_valid split: prod.splits option.splits)
qed

theorem Send_leaves_message_witness:
  "fst (snd (Send (stub_env None queued) ''example.com'' (Some minimal_message) [])) =
     Some minimal_message
   \<and> fst (snd (Send (stub_env None queued) ''example.com''
                 (Some (minimal_message\<lparr>text := []\<rparr>)) [])) =
     Some (minimal_message\<lparr>text := []\<rparr>)"
  using Send_leaves_message [of "stub_env None queued" "''example.com''" "Some minimal_message" "[]"]
    Send_leaves_message [of "stub_env None queued" "''example.com''"
      "Some (minimal_message\<lparr>text := []\<rparr>)" "[]"]
  by simp

text \<open>
  C10. When \<open>json.Marshal\<close> returns an error, \<open>AddVariable\<close> leaves the Message as it
  was: no variable is stored, and a nil variables map stays nil.
\<close>

theorem AddVariable_failure_frame:
  "json_Marshal v = (j, Some e) \<Longrightarrow> snd (AddVariable json_Marshal m variable v) = m"
  by (simp add: AddVariable_def)

theorem AddVariable_failure_frame_witness:
  "stub_Marshal None = ([], Some ''unsupported value'')
   \<and> snd (AddVariable stub_Marshal minimal_message ''n'' None) = minimal_message
   \<and> variables (snd (AddVariable stub_Marshal minimal_message ''n'' None)) = None"
proof -
  have a: "stub_Marshal None = ([], Some ''unsupported value'')"
    by (simp add: stub_Marshal_def)
  show ?thesis
    using a
      AddVariable_failure_frame
        [of stub_Marshal None "[]" "''unsupported value''" minimal_message "''n''"]
    by (simp add: minimal_message_def NewMessage_def)
qed

end
